theory Spec2Isabelle
  imports Main
begin

section \<open>JavaScript values and coercions used by the handlers\<close>

text \<open>
  Amounts, quantities and stock levels are JavaScript numbers in the source. They are
  embedded as \<open>int\<close>: the catalogue holds whole rupees, the fees are whole numbers, and
  addition and multiplication of integers are exact in a double up to \<open>2 ^ 53\<close>.
  A field of the request body that may be left out is an \<open>option\<close>
  (\<open>None\<close> for \<open>undefined\<close>).
\<close>

text \<open>
  The value a client may send as \<open>quantity\<close>. A number is carried as the text that
  \<open>Number.prototype.toString\<close> produces for it (\<open>''3''\<close>, \<open>''-2''\<close>, \<open>''2.7''\<close>,
  \<open>''5e-7''\<close>, \<open>''NaN''\<close>), which is all that \<open>parseInt\<close> reads of it.
\<close>

datatype jsval = JUndefined | JNull | JBool bool | JNum string | JStr string

fun ToString :: "jsval \<Rightarrow> string" where
  "ToString JUndefined = ''undefined''"
| "ToString JNull = ''null''"
| "ToString (JBool b) = (if b then ''true'' else ''false'')"
| "ToString (JNum s) = s"
| "ToString (JStr s) = s"

text \<open>White space of ECMAScript within ASCII: TAB, LF, VT, FF, CR and SP.\<close>

definition is_white_space :: "char \<Rightarrow> bool" where
  "is_white_space c \<longleftrightarrow> c \<in> set [CHR 0x09, CHR 0x0A, CHR 0x0B, CHR 0x0C, CHR 0x0D, CHR 0x20]"

text \<open>\<open>String.prototype.trim\<close>.\<close>

definition trim :: "string \<Rightarrow> string" where
  "trim s = rev (dropWhile is_white_space (rev (dropWhile is_white_space s)))"

text \<open>The value of a character as a digit (\<open>0-9\<close>, \<open>a-z\<close>, \<open>A-Z\<close>), if it is one.\<close>

definition digit_val :: "char \<Rightarrow> nat option" where
  "digit_val c =
     (let n = (of_char c :: nat) in
      if 48 \<le> n \<and> n \<le> 57 then Some (n - 48)
      else if 97 \<le> n \<and> n \<le> 122 then Some (n - 87)
      else if 65 \<le> n \<and> n \<le> 90 then Some (n - 55)
      else None)"

definition is_radix_digit :: "nat \<Rightarrow> char \<Rightarrow> bool" where
  "is_radix_digit R c = (case digit_val c of None \<Rightarrow> False | Some d \<Rightarrow> d < R)"

definition digits_value :: "nat \<Rightarrow> string \<Rightarrow> nat" where
  "digits_value R Z = foldl (\<lambda>acc c. acc * R + (case digit_val c of None \<Rightarrow> 0 | Some d \<Rightarrow> d)) 0 Z"

text \<open>
  \<open>parseInt(string)\<close> with no radix argument, following the steps of ECMAScript: leading
  white space is dropped, a sign is read, a \<open>0x\<close>/\<open>0X\<close> prefix selects radix 16 (radix 10
  otherwise), and the longest prefix of digits is the value. \<open>None\<close> is \<open>NaN\<close>.
\<close>

definition parseInt :: "string \<Rightarrow> int option" where
  "parseInt inputString =
     (let S = dropWhile is_white_space inputString;
          sign = (if S \<noteq> [] \<and> hd S = CHR ''-'' then - 1 else (1::int));
          S1 = (if S \<noteq> [] \<and> (hd S = CHR ''+'' \<or> hd S = CHR ''-'') then tl S else S);
          hex = (take 2 S1 = ''0x'' \<or> take 2 S1 = ''0X'');
          R = (if hex then 16 else 10);
          S2 = (if hex then drop 2 S1 else S1);
          Z = takeWhile (is_radix_digit R) S2
      in if Z = [] then None else Some (sign * int (digits_value R Z)))"

text \<open>\<open>x || 1\<close> on the result of \<open>parseInt\<close>: \<open>NaN\<close> and \<open>0\<close> are falsy.\<close>

definition or_one :: "int option \<Rightarrow> int" where
  "or_one x = (case x of None \<Rightarrow> 1 | Some n \<Rightarrow> if n = 0 then 1 else n)"

text \<open>The operator \<open>??\<close>: the left operand unless it is \<open>null\<close> or \<open>undefined\<close>.\<close>

definition nullish :: "'a option \<Rightarrow> 'a \<Rightarrow> 'a" where
  "nullish x d = (case x of None \<Rightarrow> d | Some v \<Rightarrow> v)"

section \<open>The store of the WhatsApp checkout\<close>

type_synonym timestamp = nat

text \<open>The columns of \<open>products\<close> that the checkout selects.\<close>

record product =
  p_id :: int
  p_name :: string
  price_pkr :: int
  sale_price_pkr :: "int option"
  stock :: int
  is_active :: int

text \<open>
  A line of the cart. \<open>product_id\<close> is the number that \<open>Number(item.product_id)\<close>
  yields; \<open>quantity\<close> is the value as sent.
\<close>

record cart_item =
  product_id :: int
  quantity :: jsval

record line_item =
  li_product_id :: int
  li_product_name :: string
  li_quantity :: int
  unit_price_pkr :: int
  line_total_pkr :: int

text \<open>A row of \<open>order_items\<close>: the line item with the id of its order.\<close>

record order_item_row = line_item +
  oi_order_id :: int

record order_row =
  o_id :: int
  o_customer_name :: string
  o_customer_phone :: string
  o_customer_city :: string
  o_customer_address :: string
  o_payment_method :: string
  o_gift_wrapping :: string
  o_gift_message :: "string option"
  o_notes :: "string option"
  o_subtotal_pkr :: int
  o_shipping_pkr :: int
  o_discount_pkr :: int
  o_total_pkr :: int
  o_whatsapp_sent_at :: timestamp

text \<open>
  The database: the three tables and the AUTOINCREMENT counter of \<open>orders\<close>.
\<close>

record db =
  products :: "product list"
  orders :: "order_row list"
  order_items :: "order_item_row list"
  order_seq :: int

text \<open>
  D1 is outside the repository. What the checkout needs of it is whether a write is
  accepted: \<open>rejects_order\<close> and \<open>rejects_item\<close> say which rows the store refuses
  (a constraint, a lost connection). A refused statement throws.
\<close>

record d1 =
  rejects_order :: "order_row \<Rightarrow> bool"
  rejects_item :: "order_item_row \<Rightarrow> bool"

text \<open>\<open>INSERT INTO orders ... RETURNING id\<close> followed by \<open>.first()\<close>.\<close>

definition insert_order :: "d1 \<Rightarrow> order_row \<Rightarrow> db \<Rightarrow> (int \<times> db) option" where
  "insert_order env row s =
     (let orderId = order_seq s + 1; stored = row\<lparr>o_id := orderId\<rparr>
      in if rejects_order env stored then None
         else Some (orderId, s\<lparr>orders := orders s @ [stored], order_seq := orderId\<rparr>))"

text \<open>
  \<open>db.batch(statements)\<close>: D1 runs the statements of a batch as one transaction, so
  either every row is inserted or, when one statement fails, none is and the call throws.
\<close>

definition batch :: "d1 \<Rightarrow> order_item_row list \<Rightarrow> db \<Rightarrow> db option" where
  "batch env rows s =
     (if list_ex (rejects_item env) rows then None
      else Some (s\<lparr>order_items := order_items s @ rows\<rparr>))"

section \<open>POST /api/checkout\<close>

record checkout_request =
  customer_name :: "string option"
  customer_phone :: "string option"
  customer_city :: "string option"
  customer_address :: "string option"
  payment_method :: "string option"
  gift_wrapping :: "string option"
  gift_message :: "string option"
  "notes" :: "string option"
  items :: "cart_item list option"

text \<open>
  The responses that are not the success: \<open>jsonError(message, status)\<close> and the
  \<open>onError\<close> handler, which answers any exception with 500.
\<close>

datatype error =
    NameRequired
  | PhoneRequired
  | CityRequired
  | AddressRequired
  | CartEmpty
  | InvalidPaymentMethod
  | InvalidGiftWrapping
  | ProductNotFound int
  | ProductUnavailable string
  | InsufficientStock string int
  | InternalServerError

fun http_status :: "error \<Rightarrow> nat" where
  "http_status NameRequired = 400"
| "http_status PhoneRequired = 400"
| "http_status CityRequired = 400"
| "http_status AddressRequired = 400"
| "http_status CartEmpty = 400"
| "http_status InvalidPaymentMethod = 400"
| "http_status InvalidGiftWrapping = 400"
| "http_status (ProductNotFound i) = 422"
| "http_status (ProductUnavailable n) = 422"
| "http_status (InsufficientStock n k) = 422"
| "http_status InternalServerError = 500"

record summary =
  s_items :: "line_item list"
  subtotal_pkr :: int
  shipping_pkr :: int
  discount_pkr :: int
  wrapping_fee :: int
  total_pkr :: int
  free_shipping :: bool

record checkout_response =
  order_id :: int
  summary :: summary

text \<open>\<open>!field?.trim()\<close>: the field is missing or blank.\<close>

definition blank :: "string option \<Rightarrow> bool" where
  "blank f = (case f of None \<Rightarrow> True | Some s \<Rightarrow> trim s = [])"

text \<open>\<open>field?.trim() || null\<close>, after the default \<open>''\<close> of the destructuring.\<close>

definition trim_or_null :: "string option \<Rightarrow> string option" where
  "trim_or_null f = (let t = trim (nullish f []) in if t = [] then None else Some t)"

definition VALID_PAYMENTS :: "string list" where
  "VALID_PAYMENTS = [''cod'', ''easypaisa'', ''jazzcash'', ''bank'']"

definition VALID_WRAPPING :: "string list" where
  "VALID_WRAPPING = [''none'', ''standard'', ''premium'']"

definition WRAPPING_FEES :: "string \<Rightarrow> int option" where
  "WRAPPING_FEES = map_of [(''none'', 0), (''standard'', 300), (''premium'', 600)]"

definition FREE_SHIPPING_THRESHOLD :: int where
  "FREE_SHIPPING_THRESHOLD = 5000"

text \<open>\<open>Math.max(1, parseInt(item.quantity) || 1)\<close>.\<close>

definition qty_of :: "jsval \<Rightarrow> int" where
  "qty_of q = max 1 (or_one (parseInt (ToString q)))"

text \<open>
  Step 1: \<open>SELECT ... FROM products WHERE id IN (...)\<close> over the distinct ids of the cart.
\<close>

definition fetch_products :: "db \<Rightarrow> cart_item list \<Rightarrow> product list" where
  "fetch_products s its =
     (let productIds = remdups (map product_id its)
      in filter (\<lambda>p. p_id p \<in> set productIds) (products s))"

text \<open>
  Step 2: the loop over the cart. It carries \<open>subtotalPkr\<close> and \<open>lineItems\<close> and
  leaves at the first line that fails.
\<close>

fun line_loop ::
  "product list \<Rightarrow> cart_item list \<Rightarrow> int \<times> line_item list \<Rightarrow> error + (int \<times> line_item list)"
where
  "line_loop dbProducts [] acc = Inr acc"
| "line_loop dbProducts (item # rest) (subtotalPkr, lineItems) =
     (let qty = qty_of (quantity item) in
      case find (\<lambda>p. p_id p = product_id item) dbProducts of
        None \<Rightarrow> Inl (ProductNotFound (product_id item))
      | Some product \<Rightarrow>
          if is_active product = 0 then Inl (ProductUnavailable (p_name product))
          else if stock product < qty then Inl (InsufficientStock (p_name product) (stock product))
          else
            let unitPrice = nullish (sale_price_pkr product) (price_pkr product);
                lineTotal = unitPrice * qty
            in line_loop dbProducts rest
                 (subtotalPkr + lineTotal,
                  lineItems @ [\<lparr>li_product_id = p_id product, li_product_name = p_name product,
                                li_quantity = qty, unit_price_pkr = unitPrice,
                                line_total_pkr = lineTotal\<rparr>]))"

text \<open>Step 3: the totals.\<close>

definition compute_totals :: "int \<Rightarrow> line_item list \<Rightarrow> string \<Rightarrow> summary" where
  "compute_totals subtotalPkr lineItems wrapping =
     (let SHIPPING_PKR = (if subtotalPkr \<ge> FREE_SHIPPING_THRESHOLD then 0 else 200);
          WRAPPING_FEE = nullish (WRAPPING_FEES wrapping) 0;
          DISCOUNT_PKR = 0;
          totalPkr = subtotalPkr + SHIPPING_PKR + WRAPPING_FEE - DISCOUNT_PKR
      in \<lparr>s_items = lineItems, subtotal_pkr = subtotalPkr, shipping_pkr = SHIPPING_PKR,
          discount_pkr = DISCOUNT_PKR, wrapping_fee = WRAPPING_FEE, total_pkr = totalPkr,
          free_shipping = (SHIPPING_PKR = 0)\<rparr>)"

text \<open>The header row bound to the INSERT of step 4 (its id is given by the store).\<close>

definition order_header :: "timestamp \<Rightarrow> checkout_request \<Rightarrow> summary \<Rightarrow> order_row" where
  "order_header now req t =
     \<lparr>o_id = 0,
      o_customer_name = trim (nullish (customer_name req) []),
      o_customer_phone = trim (nullish (customer_phone req) []),
      o_customer_city = trim (nullish (customer_city req) []),
      o_customer_address = trim (nullish (customer_address req) []),
      o_payment_method = nullish (payment_method req) ''cod'',
      o_gift_wrapping = nullish (gift_wrapping req) ''none'',
      o_gift_message = trim_or_null (gift_message req),
      o_notes = trim_or_null (notes req),
      o_subtotal_pkr = subtotal_pkr t,
      o_shipping_pkr = shipping_pkr t,
      o_discount_pkr = discount_pkr t,
      o_total_pkr = total_pkr t,
      o_whatsapp_sent_at = now\<rparr>"

definition item_row :: "int \<Rightarrow> line_item \<Rightarrow> order_item_row" where
  "item_row orderId li = line_item.extend li \<lparr>oi_order_id = orderId\<rparr>"

text \<open>
  Steps 4 and 5: the header is inserted by one statement, the items by one batch after
  it. An exception of either reaches the \<open>onError\<close> handler; nothing undoes the header
  when the batch throws.
\<close>

definition persist ::
  "d1 \<Rightarrow> order_row \<Rightarrow> summary \<Rightarrow> db \<Rightarrow> db \<times> (error + checkout_response)"
where
  "persist env header t s =
     (case insert_order env header s of
        None \<Rightarrow> (s, Inl InternalServerError)
      | Some (orderId, s1) \<Rightarrow>
          (case batch env (map (item_row orderId) (s_items t)) s1 of
             None \<Rightarrow> (s1, Inl InternalServerError)
           | Some s2 \<Rightarrow> (s2, Inr \<lparr>order_id = orderId, summary = t\<rparr>)))"

text \<open>
  The handler. The WhatsApp message and its link (step 6) are a rendering of the values
  below and are left out of the response.
\<close>

definition checkout ::
  "d1 \<Rightarrow> timestamp \<Rightarrow> checkout_request \<Rightarrow> db \<Rightarrow> db \<times> (error + checkout_response)"
where
  "checkout env now req s =
     (if blank (customer_name req) then (s, Inl NameRequired)
      else if blank (customer_phone req) then (s, Inl PhoneRequired)
      else if blank (customer_city req) then (s, Inl CityRequired)
      else if blank (customer_address req) then (s, Inl AddressRequired)
      else if nullish (items req) [] = [] then (s, Inl CartEmpty)
      else if nullish (payment_method req) ''cod'' \<notin> set VALID_PAYMENTS
        then (s, Inl InvalidPaymentMethod)
      else if nullish (gift_wrapping req) ''none'' \<notin> set VALID_WRAPPING
        then (s, Inl InvalidGiftWrapping)
      else
        let its = nullish (items req) [];
            dbProducts = fetch_products s its
        in case line_loop dbProducts its (0, []) of
             Inl e \<Rightarrow> (s, Inl e)
           | Inr (subtotalPkr, lineItems) \<Rightarrow>
               let t = compute_totals subtotalPkr lineItems (nullish (gift_wrapping req) ''none'')
               in persist env (order_header now req t) t s)"

section \<open>POST /api/checkout/webhook (the Stripe worker)\<close>

text \<open>
  The columns of the Stripe worker's \<open>orders\<close> table that the webhook reads or writes,
  with the row's id. \<open>status\<close> is one of five texts (a CHECK constraint).
\<close>

datatype order_status = Pending | Paid | Shipped | Delivered | Cancelled

record stripe_order =
  so_id :: int
  status :: order_status
  stripe_payment_intent :: "string option"
  stripe_charge_id :: "string option"
  updated_at :: timestamp

text \<open>\<open>event.data.object\<close> of a payment-intent event, and the event.\<close>

record payment_intent =
  pi_id :: string
  latest_charge :: "string option"

record stripe_event =
  ev_type :: string
  data_object :: payment_intent

text \<open>The two responses: \<open>jsonError(..., 400)\<close> and \<open>{ received: true }\<close>.\<close>

datatype webhook_response = SignatureFailed string | Received


text \<open>
  \<open>UPDATE orders SET status = 'paid', stripe_charge_id = ?, updated_at = datetime('now')
  WHERE stripe_payment_intent = ?\<close>. A row whose \<open>stripe_payment_intent\<close> is NULL matches
  no id. The statement is taken to run: it touches no UNIQUE column, and \<open>paid\<close>
  satisfies the CHECK on \<open>status\<close>.
\<close>

definition mark_paid :: "string \<Rightarrow> string \<Rightarrow> timestamp \<Rightarrow> stripe_order list \<Rightarrow> stripe_order list" where
  "mark_paid charge intent now rows =
     map (\<lambda>r. if stripe_payment_intent r = Some intent
               then r\<lparr>status := Paid, stripe_charge_id := Some charge, updated_at := now\<rparr>
               else r) rows"

text \<open>
  The handler. \<open>constructEvent\<close> stands for Stripe's
  \<open>webhooks.constructEventAsync(body, signature, secret)\<close>, which is outside the
  repository: it returns the event, or throws (\<open>Inl\<close> the message) when the signature
  does not verify. \<open>header\<close> is the \<open>stripe-signature\<close> header, if sent.
\<close>

definition webhook ::
  "(string \<Rightarrow> string \<Rightarrow> string \<Rightarrow> string + stripe_event) \<Rightarrow> string \<Rightarrow>
   string \<Rightarrow> string option \<Rightarrow> timestamp \<Rightarrow> stripe_order list \<Rightarrow> stripe_order list \<times> webhook_response"
where
  "webhook constructEvent secret body header now rows =
     (let signature = nullish header [] in
      case constructEvent body signature secret of
        Inl msg \<Rightarrow> (rows, SignatureFailed msg)
      | Inr event \<Rightarrow>
          if ev_type event = ''payment_intent.succeeded''
          then let pi = data_object event
               in (mark_paid (nullish (latest_charge pi) []) (pi_id pi) now rows, Received)
          else (rows, Received))"

section \<open>The specification's price rule, and concrete inputs\<close>

text \<open>
  The effective price as the specification words it, for comparison with the unit price
  the checkout computes: the sale price if it is set and lower than the list price, else
  the list price.
\<close>

definition spec_effective_price :: "product \<Rightarrow> int" where
  "spec_effective_price p =
     (case sale_price_pkr p of
        None \<Rightarrow> price_pkr p
      | Some sale \<Rightarrow> if sale < price_pkr p then sale else price_pkr p)"

text \<open>A store that accepts every write, and one that refuses the item rows of product 2.\<close>

definition accept_all :: d1 where
  "accept_all = \<lparr>rejects_order = (\<lambda>row. False), rejects_item = (\<lambda>row. False)\<rparr>"

definition refuse_items_of_2 :: d1 where
  "refuse_items_of_2 = \<lparr>rejects_order = (\<lambda>row. False), rejects_item = (\<lambda>row. li_product_id row = 2)\<rparr>"

text \<open>
  A catalogue: a product on sale below its list price, one whose sale price is above its
  list price, one with no sale price priced at the free-shipping threshold, one priced a
  rupee below it, and one with a negative list price (neither the schema nor the admin
  routes exclude it).
\<close>

definition ex_catalog :: "product list" where
  "ex_catalog =
     [\<lparr>p_id = 1, p_name = ''Intense Wood'', price_pkr = 4500, sale_price_pkr = Some 3800,
        stock = 5, is_active = 1\<rparr>,
      \<lparr>p_id = 2, p_name = ''Ocean Blue'', price_pkr = 3200, sale_price_pkr = Some 3500,
        stock = 65, is_active = 1\<rparr>,
      \<lparr>p_id = 3, p_name = ''Royal Oud'', price_pkr = 5000, sale_price_pkr = None,
        stock = 10, is_active = 1\<rparr>,
      \<lparr>p_id = 4, p_name = ''Velvet Rose'', price_pkr = 4999, sale_price_pkr = None,
        stock = 10, is_active = 1\<rparr>,
      \<lparr>p_id = 5, p_name = ''Voucher'', price_pkr = - 1000, sale_price_pkr = None,
        stock = 10, is_active = 1\<rparr>]"

definition ex_db :: db where
  "ex_db = \<lparr>products = ex_catalog, orders = [], order_items = [], order_seq = 0\<rparr>"

definition ex_request :: "cart_item list \<Rightarrow> checkout_request" where
  "ex_request its =
     \<lparr>customer_name = Some ''Ali'', customer_phone = Some ''03001234567'',
      customer_city = Some ''Lahore'', customer_address = Some ''1 Mall Road'',
      payment_method = None, gift_wrapping = None, gift_message = None, notes = None,
      items = Some its\<rparr>"

text \<open>
  A verifier that accepts one signature and then returns the event the body stands for,
  and a table with an order in each status.
\<close>

definition ex_event :: "string \<Rightarrow> stripe_event" where
  "ex_event body =
     (if body = ''succeeded pi_1'' then
        \<lparr>ev_type = ''payment_intent.succeeded'',
         data_object = \<lparr>pi_id = ''pi_1'', latest_charge = Some ''ch_1''\<rparr>\<rparr>
      else if body = ''succeeded pi_2'' then
        \<lparr>ev_type = ''payment_intent.succeeded'',
         data_object = \<lparr>pi_id = ''pi_2'', latest_charge = Some ''ch_2''\<rparr>\<rparr>
      else if body = ''succeeded pi_3'' then
        \<lparr>ev_type = ''payment_intent.succeeded'',
         data_object = \<lparr>pi_id = ''pi_3'', latest_charge = None\<rparr>\<rparr>
      else if body = ''succeeded pi_9'' then
        \<lparr>ev_type = ''payment_intent.succeeded'',
         data_object = \<lparr>pi_id = ''pi_9'', latest_charge = Some ''ch_9''\<rparr>\<rparr>
      else
        \<lparr>ev_type = ''payment_intent.created'',
         data_object = \<lparr>pi_id = ''pi_1'', latest_charge = None\<rparr>\<rparr>)"

definition ex_constructEvent :: "string \<Rightarrow> string \<Rightarrow> string \<Rightarrow> string + stripe_event" where
  "ex_constructEvent body signature secret =
     (if signature = ''v1='' @ secret then Inr (ex_event body)
      else Inl ''No signatures found matching the expected signature for payload'')"

definition ex_orders :: "stripe_order list" where
  "ex_orders =
     [\<lparr>so_id = 1, status = Pending, stripe_payment_intent = Some ''pi_1'',
        stripe_charge_id = None, updated_at = 5\<rparr>,
      \<lparr>so_id = 2, status = Cancelled, stripe_payment_intent = Some ''pi_2'',
        stripe_charge_id = None, updated_at = 6\<rparr>,
      \<lparr>so_id = 3, status = Delivered, stripe_payment_intent = Some ''pi_3'',
        stripe_charge_id = Some ''ch_old'', updated_at = 7\<rparr>,
      \<lparr>so_id = 4, status = Pending, stripe_payment_intent = None,
        stripe_charge_id = None, updated_at = 8\<rparr>]"

section \<open>Facts about the checkout\<close>

lemma find_filter_imp:
  "(\<And>x. P x \<Longrightarrow> Q x) \<Longrightarrow> find P (filter Q xs) = find P xs"
  by (induction xs) auto

text \<open>For a line of the cart, the query of step 1 returns the row the table holds.\<close>

lemma find_fetch_products:
  "item \<in> set its \<Longrightarrow>
   find (\<lambda>p. p_id p = product_id item) (fetch_products s its)
     = find (\<lambda>p. p_id p = product_id item) (products s)"
  unfolding fetch_products_def Let_def
  by (rule find_filter_imp) auto

text \<open>
  What a run of the loop that reaches its end has done: one line item per cart line, in
  order, each built from the product found for the line, and the subtotal raised by the
  line totals.
\<close>

lemma line_loop_Inr:
  "line_loop ps its (s0, l0) = Inr (sub, lis) \<Longrightarrow>
   \<exists>new. lis = l0 @ new \<and> sub = s0 + sum_list (map line_total_pkr new) \<and>
     list_all2 (\<lambda>item li. \<exists>p. find (\<lambda>p. p_id p = product_id item) ps = Some p \<and>
         is_active p \<noteq> 0 \<and> qty_of (quantity item) \<le> stock p \<and>
         li = \<lparr>li_product_id = p_id p, li_product_name = p_name p,
               li_quantity = qty_of (quantity item),
               unit_price_pkr = nullish (sale_price_pkr p) (price_pkr p),
               line_total_pkr = nullish (sale_price_pkr p) (price_pkr p) * qty_of (quantity item)\<rparr>)
       its new"
proof (induction its arbitrary: s0 l0)
  case Nil
  then show ?case by simp
next
  case (Cons item rest)
  from Cons.prems obtain p where
    f: "find (\<lambda>p. p_id p = product_id item) ps = Some p"
    and a: "is_active p \<noteq> 0" and st: "qty_of (quantity item) \<le> stock p"
    and rec: "line_loop ps rest
        (s0 + nullish (sale_price_pkr p) (price_pkr p) * qty_of (quantity item),
         l0 @ [\<lparr>li_product_id = p_id p, li_product_name = p_name p,
               li_quantity = qty_of (quantity item),
               unit_price_pkr = nullish (sale_price_pkr p) (price_pkr p),
               line_total_pkr = nullish (sale_price_pkr p) (price_pkr p) * qty_of (quantity item)\<rparr>])
        = Inr (sub, lis)"
    by (auto simp: Let_def split: option.splits if_splits)
  from Cons.IH[OF rec] obtain new where
    n: "lis = (l0 @ [\<lparr>li_product_id = p_id p, li_product_name = p_name p,
               li_quantity = qty_of (quantity item),
               unit_price_pkr = nullish (sale_price_pkr p) (price_pkr p),
               line_total_pkr = nullish (sale_price_pkr p) (price_pkr p) * qty_of (quantity item)\<rparr>]) @ new"
    and s: "sub = (s0 + nullish (sale_price_pkr p) (price_pkr p) * qty_of (quantity item))
                + sum_list (map line_total_pkr new)"
    and r: "list_all2 (\<lambda>item li. \<exists>p. find (\<lambda>p. p_id p = product_id item) ps = Some p \<and>
         is_active p \<noteq> 0 \<and> qty_of (quantity item) \<le> stock p \<and>
         li = \<lparr>li_product_id = p_id p, li_product_name = p_name p,
               li_quantity = qty_of (quantity item),
               unit_price_pkr = nullish (sale_price_pkr p) (price_pkr p),
               line_total_pkr = nullish (sale_price_pkr p) (price_pkr p) * qty_of (quantity item)\<rparr>)
       rest new"
    by blast
  show ?case
    apply (rule exI[of _ "\<lparr>li_product_id = p_id p, li_product_name = p_name p,
               li_quantity = qty_of (quantity item),
               unit_price_pkr = nullish (sale_price_pkr p) (price_pkr p),
               line_total_pkr = nullish (sale_price_pkr p) (price_pkr p) * qty_of (quantity item)\<rparr> # new"])
    using n s r f a st by simp
qed


text \<open>What a successful run of steps 4 and 5 has written.\<close>

lemma persist_Inr:
  assumes "persist env header t s = (s', Inr resp)"
  shows "order_id resp = order_seq s + 1 \<and> summary resp = t \<and>
     \<not> rejects_order env (header\<lparr>o_id := order_seq s + 1\<rparr>) \<and>
     \<not> list_ex (rejects_item env) (map (item_row (order_seq s + 1)) (s_items t)) \<and>
     s' = s\<lparr>orders := orders s @ [header\<lparr>o_id := order_seq s + 1\<rparr>],
            order_seq := order_seq s + 1,
            order_items := order_items s @ map (item_row (order_seq s + 1)) (s_items t)\<rparr>"
proof -
  let ?h = "header\<lparr>o_id := order_seq s + 1\<rparr>"
  let ?s1 = "s\<lparr>orders := orders s @ [?h], order_seq := order_seq s + 1\<rparr>"
  have ins: "insert_order env header s = (if rejects_order env ?h then None else Some (order_seq s + 1, ?s1))"
    by (simp add: insert_order_def Let_def)
  show ?thesis
  proof (cases "rejects_order env ?h")
    case True
    with assms ins show ?thesis by (simp add: persist_def)
  next
    case False
    show ?thesis
    proof (cases "list_ex (rejects_item env) (map (item_row (order_seq s + 1)) (s_items t))")
      case True
      with assms ins False show ?thesis by (simp add: persist_def batch_def)
    next
      case nb: False
      with assms ins False show ?thesis by (auto simp add: persist_def batch_def)
    qed
  qed
qed

text \<open>
  A successful checkout, taken apart: the cart passed the loop, the summary is the totals
  of its result, and the writes went through.
\<close>

lemma checkout_Inr:
  assumes "checkout env now req s = (s', Inr resp)"
  shows "\<exists>its sub lis. items req = Some its \<and> its \<noteq> [] \<and>
     line_loop (fetch_products s its) its (0, []) = Inr (sub, lis) \<and>
     nullish (gift_wrapping req) ''none'' \<in> set VALID_WRAPPING \<and>
     summary resp = compute_totals sub lis (nullish (gift_wrapping req) ''none'') \<and>
     persist env (order_header now req (summary resp)) (summary resp) s = (s', Inr resp)"
proof -
  let ?its = "nullish (items req) []"
  let ?w = "nullish (gift_wrapping req) ''none''"
  have g: "\<not> blank (customer_name req)" "\<not> blank (customer_phone req)"
      "\<not> blank (customer_city req)" "\<not> blank (customer_address req)"
      "?its \<noteq> []" "nullish (payment_method req) ''cod'' \<in> set VALID_PAYMENTS"
      "?w \<in> set VALID_WRAPPING"
    using assms unfolding checkout_def by (auto split: if_splits)
  from g(5) have i: "items req = Some ?its"
    by (cases "items req") (simp_all add: nullish_def)
  from assms g have c: "(case line_loop (fetch_products s ?its) ?its (0, []) of
             Inl e \<Rightarrow> (s, Inl e)
           | Inr (subtotalPkr, lineItems) \<Rightarrow>
               let t = compute_totals subtotalPkr lineItems ?w
               in persist env (order_header now req t) t s) = (s', Inr resp)"
    unfolding checkout_def by (simp add: Let_def)
  then obtain sub lis where l: "line_loop (fetch_products s ?its) ?its (0, []) = Inr (sub, lis)"
    by (cases "line_loop (fetch_products s ?its) ?its (0, [])") auto
  with c have p: "persist env (order_header now req (compute_totals sub lis ?w))
                 (compute_totals sub lis ?w) s = (s', Inr resp)"
    by (simp add: Let_def)
  from persist_Inr[OF p] have "summary resp = compute_totals sub lis ?w" by simp
  with i g(5) g(7) l p show ?thesis by auto
qed

lemma s_items_compute_totals [simp]: "s_items (compute_totals sub lis w) = lis"
  by (simp add: compute_totals_def Let_def)

lemma subtotal_compute_totals [simp]: "subtotal_pkr (compute_totals sub lis w) = sub"
  by (simp add: compute_totals_def Let_def)

text \<open>The resolved lines of a successful checkout, against the products table itself.\<close>

lemma checkout_lines:
  assumes "checkout env now req s = (s', Inr resp)"
  shows "\<exists>its. items req = Some its \<and>
     subtotal_pkr (summary resp) = sum_list (map line_total_pkr (s_items (summary resp))) \<and>
     order_items s' = order_items s @ map (item_row (order_id resp)) (s_items (summary resp)) \<and>
     list_all2 (\<lambda>item li. \<exists>p. find (\<lambda>p. p_id p = product_id item) (products s) = Some p \<and>
         is_active p \<noteq> 0 \<and> qty_of (quantity item) \<le> stock p \<and>
         li = \<lparr>li_product_id = p_id p, li_product_name = p_name p,
               li_quantity = qty_of (quantity item),
               unit_price_pkr = nullish (sale_price_pkr p) (price_pkr p),
               line_total_pkr = nullish (sale_price_pkr p) (price_pkr p) * qty_of (quantity item)\<rparr>)
       its (s_items (summary resp))"
proof -
  from checkout_Inr[OF assms] obtain its sub lis where
    i: "items req = Some its"
    and l: "line_loop (fetch_products s its) its (0, []) = Inr (sub, lis)"
    and t: "summary resp = compute_totals sub lis (nullish (gift_wrapping req) ''none'')"
    and p: "persist env (order_header now req (summary resp)) (summary resp) s = (s', Inr resp)"
    by blast
  from persist_Inr[OF p] have
    o: "order_items s' = order_items s @ map (item_row (order_id resp)) (s_items (summary resp))"
    by simp
  from line_loop_Inr[OF l] have
    sub: "sub = sum_list (map line_total_pkr lis)"
    and r: "list_all2 (\<lambda>item li. \<exists>p. find (\<lambda>p. p_id p = product_id item) (fetch_products s its) = Some p \<and>
         is_active p \<noteq> 0 \<and> qty_of (quantity item) \<le> stock p \<and>
         li = \<lparr>li_product_id = p_id p, li_product_name = p_name p,
               li_quantity = qty_of (quantity item),
               unit_price_pkr = nullish (sale_price_pkr p) (price_pkr p),
               line_total_pkr = nullish (sale_price_pkr p) (price_pkr p) * qty_of (quantity item)\<rparr>)
       its lis"
    by auto
  have r': "list_all2 (\<lambda>item li. \<exists>p. find (\<lambda>p. p_id p = product_id item) (products s) = Some p \<and>
         is_active p \<noteq> 0 \<and> qty_of (quantity item) \<le> stock p \<and>
         li = \<lparr>li_product_id = p_id p, li_product_name = p_name p,
               li_quantity = qty_of (quantity item),
               unit_price_pkr = nullish (sale_price_pkr p) (price_pkr p),
               line_total_pkr = nullish (sale_price_pkr p) (price_pkr p) * qty_of (quantity item)\<rparr>)
       its lis"
    by (rule list.rel_mono_strong[OF r]) (simp add: find_fetch_products)
  show ?thesis
    using i sub r' t o by simp
qed



section \<open>Claims about the checkout\<close>

text \<open>
  C1, as amended. For every line of a successful checkout, the unit price of its line
  item (in the response and in the stored row) is the sale price of the product found
  for the line whenever a sale price is set, whether or not it is below the list price,
  and the list price when none is set.
\<close>

theorem checkout_unit_price_sale_if_set:
  assumes "checkout env now req s = (s', Inr resp)"
  shows "\<exists>its. items req = Some its \<and>
     order_items s' = order_items s @ map (item_row (order_id resp)) (s_items (summary resp)) \<and>
     list_all2 (\<lambda>item li. \<exists>p. find (\<lambda>p. p_id p = product_id item) (products s) = Some p \<and>
         unit_price_pkr li = (case sale_price_pkr p of None \<Rightarrow> price_pkr p | Some sale \<Rightarrow> sale))
       its (s_items (summary resp))"
proof -
  from checkout_lines[OF assms] obtain its where
    i: "items req = Some its"
    and o: "order_items s' = order_items s @ map (item_row (order_id resp)) (s_items (summary resp))"
    and r: "list_all2 (\<lambda>item li. \<exists>p. find (\<lambda>p. p_id p = product_id item) (products s) = Some p \<and>
         is_active p \<noteq> 0 \<and> qty_of (quantity item) \<le> stock p \<and>
         li = \<lparr>li_product_id = p_id p, li_product_name = p_name p,
               li_quantity = qty_of (quantity item),
               unit_price_pkr = nullish (sale_price_pkr p) (price_pkr p),
               line_total_pkr = nullish (sale_price_pkr p) (price_pkr p) * qty_of (quantity item)\<rparr>)
       its (s_items (summary resp))"
    by blast
  have "list_all2 (\<lambda>item li. \<exists>p. find (\<lambda>p. p_id p = product_id item) (products s) = Some p \<and>
         unit_price_pkr li = (case sale_price_pkr p of None \<Rightarrow> price_pkr p | Some sale \<Rightarrow> sale))
       its (s_items (summary resp))"
    by (rule list.rel_mono_strong[OF r]) (auto simp: nullish_def)
  with i o show ?thesis by blast
qed

lemma ex_checkout_sale_products:
  "checkout accept_all 7
     (ex_request [\<lparr>product_id = 1, quantity = JNum ''2''\<rparr>, \<lparr>product_id = 3, quantity = JNum ''1''\<rparr>])
     ex_db
   = (ex_db\<lparr>orders :=
        [\<lparr>o_id = 1, o_customer_name = ''Ali'', o_customer_phone = ''03001234567'',
          o_customer_city = ''Lahore'', o_customer_address = ''1 Mall Road'',
          o_payment_method = ''cod'', o_gift_wrapping = ''none'', o_gift_message = None,
          o_notes = None, o_subtotal_pkr = 12600, o_shipping_pkr = 0, o_discount_pkr = 0,
          o_total_pkr = 12600, o_whatsapp_sent_at = 7\<rparr>],
        order_items :=
        [\<lparr>li_product_id = 1, li_product_name = ''Intense Wood'', li_quantity = 2,
          unit_price_pkr = 3800, line_total_pkr = 7600, oi_order_id = 1\<rparr>,
         \<lparr>li_product_id = 3, li_product_name = ''Royal Oud'', li_quantity = 1,
          unit_price_pkr = 5000, line_total_pkr = 5000, oi_order_id = 1\<rparr>],
        order_seq := 1\<rparr>,
      Inr \<lparr>order_id = 1,
           summary =
             \<lparr>s_items =
                [\<lparr>li_product_id = 1, li_product_name = ''Intense Wood'', li_quantity = 2,
                  unit_price_pkr = 3800, line_total_pkr = 7600\<rparr>,
                 \<lparr>li_product_id = 3, li_product_name = ''Royal Oud'', li_quantity = 1,
                  unit_price_pkr = 5000, line_total_pkr = 5000\<rparr>],
              subtotal_pkr = 12600, shipping_pkr = 0, discount_pkr = 0, wrapping_fee = 0,
              total_pkr = 12600, free_shipping = True\<rparr>\<rparr>)"
  by code_simp

theorem checkout_unit_price_sale_if_set_witness:
  "\<exists>s' resp.
     checkout accept_all 7
       (ex_request [\<lparr>product_id = 1, quantity = JNum ''2''\<rparr>, \<lparr>product_id = 3, quantity = JNum ''1''\<rparr>])
       ex_db = (s', Inr resp) \<and>
     map unit_price_pkr (s_items (summary resp)) = [3800, 5000] \<and>
     (\<exists>its. items (ex_request [\<lparr>product_id = 1, quantity = JNum ''2''\<rparr>,
                                  \<lparr>product_id = 3, quantity = JNum ''1''\<rparr>]) = Some its \<and>
        order_items s' = order_items ex_db @ map (item_row (order_id resp)) (s_items (summary resp)) \<and>
        list_all2 (\<lambda>item li. \<exists>p. find (\<lambda>p. p_id p = product_id item) (products ex_db) = Some p \<and>
            unit_price_pkr li = (case sale_price_pkr p of None \<Rightarrow> price_pkr p | Some sale \<Rightarrow> sale))
          its (s_items (summary resp)))"
proof -
  note run = ex_checkout_sale_products
  have prices: "map unit_price_pkr (s_items (summary resp)) = [3800, 5000]"
    if "checkout accept_all 7
          (ex_request [\<lparr>product_id = 1, quantity = JNum ''2''\<rparr>,
                       \<lparr>product_id = 3, quantity = JNum ''1''\<rparr>])
          ex_db = (s', Inr resp)" for s' resp
    using that unfolding run by auto
  show ?thesis
    by (rule exI, rule exI,
        rule conjI[OF run conjI[OF prices[OF run] checkout_unit_price_sale_if_set[OF run]]])
qed

text \<open>
  C1 as stated fails: product 2 has list price 3200 and sale price 3500, the specification's
  rule gives 3200, and the checkout charges 3500.
\<close>

theorem checkout_unit_price_counterexample:
  "snd (checkout accept_all 7 (ex_request [\<lparr>product_id = 2, quantity = JNum ''1''\<rparr>]) ex_db)
     = Inr \<lparr>order_id = 1,
            summary =
              \<lparr>s_items =
                 [\<lparr>li_product_id = 2, li_product_name = ''Ocean Blue'', li_quantity = 1,
                   unit_price_pkr = 3500, line_total_pkr = 3500\<rparr>],
               subtotal_pkr = 3500, shipping_pkr = 200, discount_pkr = 0, wrapping_fee = 0,
               total_pkr = 3700, free_shipping = False\<rparr>\<rparr>
   \<and> p_id (ex_catalog ! 1) = 2
   \<and> spec_effective_price (ex_catalog ! 1) = 3200"
  by code_simp

lemma checkout_persist:
  assumes "checkout env now req s = (s', Inr resp)"
  shows "checkout env' now req s
           = persist env' (order_header now req (summary resp)) (summary resp) s"
proof -
  let ?its = "nullish (items req) []"
  let ?w = "nullish (gift_wrapping req) ''none''"
  have g: "\<not> blank (customer_name req)" "\<not> blank (customer_phone req)"
      "\<not> blank (customer_city req)" "\<not> blank (customer_address req)"
      "?its \<noteq> []" "nullish (payment_method req) ''cod'' \<in> set VALID_PAYMENTS"
      "?w \<in> set VALID_WRAPPING"
    using assms unfolding checkout_def by (auto split: if_splits)
  from checkout_Inr[OF assms] obtain its sub lis where
    i: "items req = Some its"
    and l: "line_loop (fetch_products s its) its (0, []) = Inr (sub, lis)"
    and t: "summary resp = compute_totals sub lis ?w"
    by blast
  from i have "?its = its" by (simp add: nullish_def)
  with g l t show ?thesis
    unfolding checkout_def by (simp add: Let_def)
qed

lemma persist_item_failure:
  assumes "\<not> rejects_order env (header\<lparr>o_id := order_seq s + 1\<rparr>)"
    and "list_ex (rejects_item env) (map (item_row (order_seq s + 1)) (s_items t))"
  shows "persist env header t s
           = (s\<lparr>orders := orders s @ [header\<lparr>o_id := order_seq s + 1\<rparr>],
                order_seq := order_seq s + 1\<rparr>, Inl InternalServerError)"
  using assms by (simp add: persist_def insert_order_def batch_def Let_def)

text \<open>
  C2, as amended. Take a checkout that succeeds on a store accepting every write, and a
  store that accepts its header row but refuses one of its item rows. On that store the
  request ends in the 500 response, no item row is written, and the header row stays:
  the state is that of the successful run without its item rows.
\<close>

theorem checkout_item_failure_keeps_header:
  assumes ok: "checkout accept_all now req s = (s_ok, Inr resp)"
    and hdr: "\<not> rejects_order env (last (orders s_ok))"
    and itm: "list_ex (rejects_item env) (drop (length (order_items s)) (order_items s_ok))"
  shows "checkout env now req s = (s_ok\<lparr>order_items := order_items s\<rparr>, Inl InternalServerError)
     \<and> orders s_ok = orders s @ [last (orders s_ok)]
     \<and> o_id (last (orders s_ok)) = order_id resp"
proof -
  let ?t = "summary resp"
  let ?h = "order_header now req ?t"
  from checkout_Inr[OF ok] have
    p: "persist accept_all ?h ?t s = (s_ok, Inr resp)"
    by blast
  from persist_Inr[OF p] have
    o: "order_id resp = order_seq s + 1"
    and s_ok: "s_ok = s\<lparr>orders := orders s @ [?h\<lparr>o_id := order_seq s + 1\<rparr>],
            order_seq := order_seq s + 1,
            order_items := order_items s @ map (item_row (order_seq s + 1)) (s_items ?t)\<rparr>"
    by simp_all
  from s_ok have la: "last (orders s_ok) = ?h\<lparr>o_id := order_seq s + 1\<rparr>"
    and dr: "drop (length (order_items s)) (order_items s_ok)
               = map (item_row (order_seq s + 1)) (s_items ?t)"
    by simp_all
  have "checkout env now req s = persist env ?h ?t s"
    by (rule checkout_persist[OF ok])
  also have "\<dots> = (s\<lparr>orders := orders s @ [?h\<lparr>o_id := order_seq s + 1\<rparr>],
                order_seq := order_seq s + 1\<rparr>, Inl InternalServerError)"
    using hdr itm unfolding la dr by (rule persist_item_failure)
  also have "s\<lparr>orders := orders s @ [?h\<lparr>o_id := order_seq s + 1\<rparr>],
                order_seq := order_seq s + 1\<rparr> = s_ok\<lparr>order_items := order_items s\<rparr>"
    by (subst s_ok) simp
  finally have c: "checkout env now req s
      = (s_ok\<lparr>order_items := order_items s\<rparr>, Inl InternalServerError)" .
  have "orders s_ok = orders s @ [last (orders s_ok)]"
    unfolding la by (subst s_ok) simp
  moreover have "o_id (last (orders s_ok)) = order_id resp"
    unfolding la using o by simp
  ultimately show ?thesis using c by blast
qed

lemma ex_checkout_two_lines:
  "checkout accept_all 7
     (ex_request [\<lparr>product_id = 1, quantity = JNum ''1''\<rparr>, \<lparr>product_id = 2, quantity = JNum ''1''\<rparr>])
     ex_db
   = (ex_db\<lparr>orders :=
        [\<lparr>o_id = 1, o_customer_name = ''Ali'', o_customer_phone = ''03001234567'',
          o_customer_city = ''Lahore'', o_customer_address = ''1 Mall Road'',
          o_payment_method = ''cod'', o_gift_wrapping = ''none'', o_gift_message = None,
          o_notes = None, o_subtotal_pkr = 7300, o_shipping_pkr = 0, o_discount_pkr = 0,
          o_total_pkr = 7300, o_whatsapp_sent_at = 7\<rparr>],
        order_items :=
        [\<lparr>li_product_id = 1, li_product_name = ''Intense Wood'', li_quantity = 1,
          unit_price_pkr = 3800, line_total_pkr = 3800, oi_order_id = 1\<rparr>,
         \<lparr>li_product_id = 2, li_product_name = ''Ocean Blue'', li_quantity = 1,
          unit_price_pkr = 3500, line_total_pkr = 3500, oi_order_id = 1\<rparr>],
        order_seq := 1\<rparr>,
      Inr \<lparr>order_id = 1,
           summary =
             \<lparr>s_items =
                [\<lparr>li_product_id = 1, li_product_name = ''Intense Wood'', li_quantity = 1,
                  unit_price_pkr = 3800, line_total_pkr = 3800\<rparr>,
                 \<lparr>li_product_id = 2, li_product_name = ''Ocean Blue'', li_quantity = 1,
                  unit_price_pkr = 3500, line_total_pkr = 3500\<rparr>],
              subtotal_pkr = 7300, shipping_pkr = 0, discount_pkr = 0, wrapping_fee = 0,
              total_pkr = 7300, free_shipping = True\<rparr>\<rparr>)"
  by code_simp

theorem checkout_item_failure_keeps_header_witness:
  "checkout refuse_items_of_2 7
     (ex_request [\<lparr>product_id = 1, quantity = JNum ''1''\<rparr>, \<lparr>product_id = 2, quantity = JNum ''1''\<rparr>])
     ex_db
   = (ex_db\<lparr>orders :=
        [\<lparr>o_id = 1, o_customer_name = ''Ali'', o_customer_phone = ''03001234567'',
          o_customer_city = ''Lahore'', o_customer_address = ''1 Mall Road'',
          o_payment_method = ''cod'', o_gift_wrapping = ''none'', o_gift_message = None,
          o_notes = None, o_subtotal_pkr = 7300, o_shipping_pkr = 0, o_discount_pkr = 0,
          o_total_pkr = 7300, o_whatsapp_sent_at = 7\<rparr>],
        order_items := [],
        order_seq := 1\<rparr>,
      Inl InternalServerError)"
proof -
  let ?s_ok = "ex_db\<lparr>orders :=
        [\<lparr>o_id = 1, o_customer_name = ''Ali'', o_customer_phone = ''03001234567'',
          o_customer_city = ''Lahore'', o_customer_address = ''1 Mall Road'',
          o_payment_method = ''cod'', o_gift_wrapping = ''none'', o_gift_message = None,
          o_notes = None, o_subtotal_pkr = 7300, o_shipping_pkr = 0, o_discount_pkr = 0,
          o_total_pkr = 7300, o_whatsapp_sent_at = 7\<rparr>],
        order_items :=
        [\<lparr>li_product_id = 1, li_product_name = ''Intense Wood'', li_quantity = 1,
          unit_price_pkr = 3800, line_total_pkr = 3800, oi_order_id = 1\<rparr>,
         \<lparr>li_product_id = 2, li_product_name = ''Ocean Blue'', li_quantity = 1,
          unit_price_pkr = 3500, line_total_pkr = 3500, oi_order_id = 1\<rparr>],
        order_seq := 1\<rparr>"
  have hdr: "\<not> rejects_order refuse_items_of_2 (last (orders ?s_ok))"
    by (simp add: refuse_items_of_2_def)
  have itm: "list_ex (rejects_item refuse_items_of_2)
               (drop (length (order_items ex_db)) (order_items ?s_ok))"
    by (simp add: refuse_items_of_2_def ex_db_def)
  from checkout_item_failure_keeps_header[OF ex_checkout_two_lines hdr itm]
  show ?thesis by (simp add: ex_db_def)
qed

text \<open>
  C2 as stated fails: the store refuses the last item row of a two-line cart, the request
  ends in the 500 response, and the header row of the attempt is in \<open>orders\<close>.
\<close>

theorem checkout_atomic_counterexample:
  "snd (checkout refuse_items_of_2 7
          (ex_request [\<lparr>product_id = 1, quantity = JNum ''1''\<rparr>,
                       \<lparr>product_id = 2, quantity = JNum ''1''\<rparr>]) ex_db)
     = Inl InternalServerError
   \<and> orders ex_db = []
   \<and> map o_id (orders (fst (checkout refuse_items_of_2 7
          (ex_request [\<lparr>product_id = 1, quantity = JNum ''1''\<rparr>,
                       \<lparr>product_id = 2, quantity = JNum ''1''\<rparr>]) ex_db))) = [1]
   \<and> order_items (fst (checkout refuse_items_of_2 7
          (ex_request [\<lparr>product_id = 1, quantity = JNum ''1''\<rparr>,
                       \<lparr>product_id = 2, quantity = JNum ''1''\<rparr>]) ex_db)) = []"
  by code_simp

text \<open>The header row a successful checkout has appended to \<open>orders\<close>.\<close>

lemma checkout_header_row:
  assumes "checkout env now req s = (s', Inr resp)"
  shows "orders s' = orders s @ [(order_header now req (summary resp))\<lparr>o_id := order_id resp\<rparr>]"
proof -
  from checkout_Inr[OF assms] have
    "persist env (order_header now req (summary resp)) (summary resp) s = (s', Inr resp)"
    by blast
  from persist_Inr[OF this] have
    o: "order_id resp = order_seq s + 1"
    and s': "s' = s\<lparr>orders := orders s @ [(order_header now req (summary resp))\<lparr>o_id := order_seq s + 1\<rparr>],
            order_seq := order_seq s + 1,
            order_items := order_items s @ map (item_row (order_seq s + 1)) (s_items (summary resp))\<rparr>"
    by simp_all
  show ?thesis unfolding o by (subst s') simp
qed

text \<open>The totals of a successful checkout are those of step 3.\<close>

lemma checkout_totals:
  assumes "checkout env now req s = (s', Inr resp)"
  shows "\<exists>w. shipping_pkr (summary resp) = (if subtotal_pkr (summary resp) \<ge> 5000 then 0 else 200)
     \<and> wrapping_fee (summary resp) = nullish (WRAPPING_FEES w) 0
     \<and> discount_pkr (summary resp) = 0
     \<and> free_shipping (summary resp) = (shipping_pkr (summary resp) = 0)
     \<and> total_pkr (summary resp)
         = subtotal_pkr (summary resp) + shipping_pkr (summary resp)
           + wrapping_fee (summary resp) - discount_pkr (summary resp)"
proof -
  from checkout_Inr[OF assms] obtain sub lis where
    "summary resp = compute_totals sub lis (nullish (gift_wrapping req) ''none'')"
    by blast
  then show ?thesis
    by (intro exI[of _ "nullish (gift_wrapping req) ''none''"])
       (simp add: compute_totals_def FREE_SHIPPING_THRESHOLD_def Let_def)
qed



lemma ex_checkout_at_threshold:
  "checkout accept_all 7 (ex_request [\<lparr>product_id = 3, quantity = JNum ''1''\<rparr>]) ex_db
   = (ex_db\<lparr>orders :=
        [\<lparr>o_id = 1, o_customer_name = ''Ali'', o_customer_phone = ''03001234567'',
          o_customer_city = ''Lahore'', o_customer_address = ''1 Mall Road'',
          o_payment_method = ''cod'', o_gift_wrapping = ''none'', o_gift_message = None,
          o_notes = None, o_subtotal_pkr = 5000, o_shipping_pkr = 0, o_discount_pkr = 0,
          o_total_pkr = 5000, o_whatsapp_sent_at = 7\<rparr>],
        order_items :=
        [\<lparr>li_product_id = 3, li_product_name = ''Royal Oud'', li_quantity = 1,
          unit_price_pkr = 5000, line_total_pkr = 5000, oi_order_id = 1\<rparr>],
        order_seq := 1\<rparr>,
      Inr \<lparr>order_id = 1,
           summary =
             \<lparr>s_items =
                [\<lparr>li_product_id = 3, li_product_name = ''Royal Oud'', li_quantity = 1,
                  unit_price_pkr = 5000, line_total_pkr = 5000\<rparr>],
              subtotal_pkr = 5000, shipping_pkr = 0, discount_pkr = 0, wrapping_fee = 0,
              total_pkr = 5000, free_shipping = True\<rparr>\<rparr>)"
  by code_simp

lemma ex_checkout_below_threshold:
  "checkout accept_all 7
     ((ex_request [\<lparr>product_id = 4, quantity = JNum ''1''\<rparr>])\<lparr>gift_wrapping := Some ''premium''\<rparr>)
     ex_db
   = (ex_db\<lparr>orders :=
        [\<lparr>o_id = 1, o_customer_name = ''Ali'', o_customer_phone = ''03001234567'',
          o_customer_city = ''Lahore'', o_customer_address = ''1 Mall Road'',
          o_payment_method = ''cod'', o_gift_wrapping = ''premium'', o_gift_message = None,
          o_notes = None, o_subtotal_pkr = 4999, o_shipping_pkr = 200, o_discount_pkr = 0,
          o_total_pkr = 5799, o_whatsapp_sent_at = 7\<rparr>],
        order_items :=
        [\<lparr>li_product_id = 4, li_product_name = ''Velvet Rose'', li_quantity = 1,
          unit_price_pkr = 4999, line_total_pkr = 4999, oi_order_id = 1\<rparr>],
        order_seq := 1\<rparr>,
      Inr \<lparr>order_id = 1,
           summary =
             \<lparr>s_items =
                [\<lparr>li_product_id = 4, li_product_name = ''Velvet Rose'', li_quantity = 1,
                  unit_price_pkr = 4999, line_total_pkr = 4999\<rparr>],
              subtotal_pkr = 4999, shipping_pkr = 200, discount_pkr = 0, wrapping_fee = 600,
              total_pkr = 5799, free_shipping = False\<rparr>\<rparr>)"
  by code_simp



text \<open>
  C4. For every successful checkout the shipping fee, in the response and on the stored
  order, is 0 when the subtotal is at least the threshold 5000 and the flat fee 200 when
  it is below; \<open>free_shipping\<close> says which. The witness runs a cart of subtotal exactly
  5000 (shipping 0) and one of subtotal 4999 (shipping 200).
\<close>

theorem checkout_shipping_fee:
  assumes "checkout env now req s = (s', Inr resp)"
  shows "shipping_pkr (summary resp) = (if subtotal_pkr (summary resp) \<ge> 5000 then 0 else 200)
     \<and> free_shipping (summary resp) = (subtotal_pkr (summary resp) \<ge> 5000)
     \<and> FREE_SHIPPING_THRESHOLD = 5000
     \<and> (\<exists>row. orders s' = orders s @ [row] \<and> o_id row = order_id resp
            \<and> o_subtotal_pkr row = subtotal_pkr (summary resp)
            \<and> o_shipping_pkr row = shipping_pkr (summary resp))"
proof -
  let ?t = "summary resp"
  from checkout_totals[OF assms] have
    sh: "shipping_pkr ?t = (if subtotal_pkr ?t \<ge> 5000 then 0 else 200)"
    and fr: "free_shipping ?t = (shipping_pkr ?t = 0)"
    by blast+
  have row: "\<exists>row. orders s' = orders s @ [row] \<and> o_id row = order_id resp
            \<and> o_subtotal_pkr row = subtotal_pkr ?t
            \<and> o_shipping_pkr row = shipping_pkr ?t"
    using checkout_header_row[OF assms] by (simp add: order_header_def)
  from sh fr have "free_shipping ?t = (subtotal_pkr ?t \<ge> 5000)" by simp
  with sh row show ?thesis by (simp add: FREE_SHIPPING_THRESHOLD_def)
qed

theorem checkout_shipping_fee_witness:
  "(\<exists>s' resp.
      checkout accept_all 7 (ex_request [\<lparr>product_id = 3, quantity = JNum ''1''\<rparr>]) ex_db
        = (s', Inr resp) \<and>
      (subtotal_pkr (summary resp) = 5000 \<and> shipping_pkr (summary resp) = 0) \<and>
      (shipping_pkr (summary resp) = (if subtotal_pkr (summary resp) \<ge> 5000 then 0 else 200)
       \<and> free_shipping (summary resp) = (subtotal_pkr (summary resp) \<ge> 5000)
       \<and> FREE_SHIPPING_THRESHOLD = 5000
       \<and> (\<exists>row. orders s' = orders ex_db @ [row] \<and> o_id row = order_id resp
              \<and> o_subtotal_pkr row = subtotal_pkr (summary resp)
              \<and> o_shipping_pkr row = shipping_pkr (summary resp))))
   \<and> (\<exists>s' resp.
      checkout accept_all 7
        ((ex_request [\<lparr>product_id = 4, quantity = JNum ''1''\<rparr>])\<lparr>gift_wrapping := Some ''premium''\<rparr>)
        ex_db = (s', Inr resp) \<and>
      (subtotal_pkr (summary resp) = 4999 \<and> shipping_pkr (summary resp) = 200) \<and>
      (shipping_pkr (summary resp) = (if subtotal_pkr (summary resp) \<ge> 5000 then 0 else 200)
       \<and> free_shipping (summary resp) = (subtotal_pkr (summary resp) \<ge> 5000)
       \<and> FREE_SHIPPING_THRESHOLD = 5000
       \<and> (\<exists>row. orders s' = orders ex_db @ [row] \<and> o_id row = order_id resp
              \<and> o_subtotal_pkr row = subtotal_pkr (summary resp)
              \<and> o_shipping_pkr row = shipping_pkr (summary resp))))"
proof -
  note at = ex_checkout_at_threshold
  note below = ex_checkout_below_threshold
  have v1: "subtotal_pkr (summary resp) = 5000 \<and> shipping_pkr (summary resp) = 0"
    if "checkout accept_all 7 (ex_request [\<lparr>product_id = 3, quantity = JNum ''1''\<rparr>]) ex_db
          = (s', Inr resp)" for s' resp
    using that unfolding at by auto
  have v2: "subtotal_pkr (summary resp) = 4999 \<and> shipping_pkr (summary resp) = 200"
    if "checkout accept_all 7
          ((ex_request [\<lparr>product_id = 4, quantity = JNum ''1''\<rparr>])\<lparr>gift_wrapping := Some ''premium''\<rparr>)
          ex_db = (s', Inr resp)" for s' resp
    using that unfolding below by auto
  show ?thesis
    by (rule conjI;
        rule exI, rule exI,
        (rule conjI[OF at conjI[OF v1[OF at] checkout_shipping_fee[OF at]]]
         | rule conjI[OF below conjI[OF v2[OF below] checkout_shipping_fee[OF below]]]))
qed

text \<open>
  C6, as amended. When the gift-wrapping selection is omitted the request is treated as
  \<open>none\<close>: it is never rejected for its wrapping, and when the checkout succeeds the
  fee is 0 and the stored order says \<open>none\<close>. A selection outside
  \<open>none\<close>, \<open>standard\<close>, \<open>premium\<close> is rejected with status 400 and nothing is
  written; when the required fields, the cart and the payment method pass, the error is
  the invalid-wrapping one.
\<close>

theorem checkout_gift_wrapping:
  "(gift_wrapping req = None \<longrightarrow>
      snd (checkout env now req s) \<noteq> Inl InvalidGiftWrapping \<and>
      checkout env now req s = checkout env now (req\<lparr>gift_wrapping := Some ''none''\<rparr>) s \<and>
      (\<forall>s' resp. checkout env now req s = (s', Inr resp) \<longrightarrow>
         wrapping_fee (summary resp) = 0 \<and>
         (\<exists>row. orders s' = orders s @ [row] \<and> o_gift_wrapping row = ''none'')))
   \<and> (\<forall>g. gift_wrapping req = Some g \<and> g \<notin> set VALID_WRAPPING \<longrightarrow>
         (\<exists>e. checkout env now req s = (s, Inl e) \<and> http_status e = 400 \<and>
              (\<not> blank (customer_name req) \<and> \<not> blank (customer_phone req) \<and>
               \<not> blank (customer_city req) \<and> \<not> blank (customer_address req) \<and>
               nullish (items req) [] \<noteq> [] \<and>
               nullish (payment_method req) ''cod'' \<in> set VALID_PAYMENTS
               \<longrightarrow> e = InvalidGiftWrapping)))"
proof (intro conjI impI allI)
  assume n: "gift_wrapping req = None"
  then have v: "nullish (gift_wrapping req) ''none'' \<in> set VALID_WRAPPING"
    by (simp add: nullish_def VALID_WRAPPING_def)
  show "snd (checkout env now req s) \<noteq> Inl InvalidGiftWrapping"
  proof
    assume a: "snd (checkout env now req s) = Inl InvalidGiftWrapping"
    have "snd (persist env h t s) \<noteq> Inl InvalidGiftWrapping" for h t
      by (simp add: persist_def split: option.splits prod.splits)
    moreover have "snd (case line_loop ps its acc of Inl e \<Rightarrow> (s, Inl e)
              | Inr (subtotalPkr, lineItems) \<Rightarrow> f subtotalPkr lineItems) = Inl InvalidGiftWrapping
        \<Longrightarrow> (\<exists>a b. snd (f a b) = Inl InvalidGiftWrapping)
            \<or> line_loop ps its acc = Inl InvalidGiftWrapping" for ps its acc f
      by (auto split: sum.splits)
    moreover have "line_loop ps its acc \<noteq> Inl InvalidGiftWrapping" for ps its acc
      by (induction ps its acc rule: line_loop.induct)
         (auto simp: Let_def split: option.splits)
    ultimately show False
      using a v unfolding checkout_def Let_def
      by (auto split: if_splits sum.splits prod.splits)
  qed
next
  assume n: "gift_wrapping req = None"
  show "checkout env now req s = checkout env now (req\<lparr>gift_wrapping := Some ''none''\<rparr>) s"
  proof -
    have h: "order_header now (req\<lparr>gift_wrapping := Some ''none''\<rparr>) t = order_header now req t" for t
      using n by (simp add: order_header_def nullish_def)
    have w: "nullish (gift_wrapping (req\<lparr>gift_wrapping := Some ''none''\<rparr>)) ''none''
               = nullish (gift_wrapping req) ''none''"
      using n by (simp add: nullish_def)
    show ?thesis
      unfolding checkout_def h w by simp
  qed
next
  fix s' resp
  assume n: "gift_wrapping req = None" and c: "checkout env now req s = (s', Inr resp)"
  from checkout_Inr[OF c] obtain sub lis where
    "summary resp = compute_totals sub lis (nullish (gift_wrapping req) ''none'')"
    by blast
  with n show "wrapping_fee (summary resp) = 0"
    by (simp add: compute_totals_def nullish_def WRAPPING_FEES_def Let_def)
  from checkout_header_row[OF c] n
  show "\<exists>row. orders s' = orders s @ [row] \<and> o_gift_wrapping row = ''none''"
    by (simp add: order_header_def nullish_def)
next
  fix g
  assume "gift_wrapping req = Some g \<and> g \<notin> set VALID_WRAPPING"
  then have "nullish (gift_wrapping req) ''none'' \<notin> set VALID_WRAPPING"
    by (simp add: nullish_def)
  then show "\<exists>e. checkout env now req s = (s, Inl e) \<and> http_status e = 400 \<and>
              (\<not> blank (customer_name req) \<and> \<not> blank (customer_phone req) \<and>
               \<not> blank (customer_city req) \<and> \<not> blank (customer_address req) \<and>
               nullish (items req) [] \<noteq> [] \<and>
               nullish (payment_method req) ''cod'' \<in> set VALID_PAYMENTS
               \<longrightarrow> e = InvalidGiftWrapping)"
    unfolding checkout_def by simp
qed

theorem checkout_gift_wrapping_witness:
  "(gift_wrapping (ex_request [\<lparr>product_id = 3, quantity = JNum ''1''\<rparr>]) = None \<and>
    snd (checkout accept_all 7 (ex_request [\<lparr>product_id = 3, quantity = JNum ''1''\<rparr>]) ex_db)
      \<noteq> Inl InvalidGiftWrapping \<and>
    (\<exists>s' resp.
       checkout accept_all 7 (ex_request [\<lparr>product_id = 3, quantity = JNum ''1''\<rparr>]) ex_db
         = (s', Inr resp) \<and>
       wrapping_fee (summary resp) = 0 \<and>
       (\<exists>row. orders s' = orders ex_db @ [row] \<and> o_gift_wrapping row = ''none'')))
   \<and> (gift_wrapping ((ex_request [\<lparr>product_id = 3, quantity = JNum ''1''\<rparr>])
                        \<lparr>gift_wrapping := Some ''deluxe''\<rparr>) = Some ''deluxe'' \<and>
      ''deluxe'' \<notin> set VALID_WRAPPING \<and>
      (\<exists>e. checkout accept_all 7
              ((ex_request [\<lparr>product_id = 3, quantity = JNum ''1''\<rparr>])
                 \<lparr>gift_wrapping := Some ''deluxe''\<rparr>) ex_db = (ex_db, Inl e) \<and>
           http_status e = 400))"
proof -
  let ?req = "ex_request [\<lparr>product_id = 3, quantity = JNum ''1''\<rparr>]"
  let ?bad = "?req\<lparr>gift_wrapping := Some ''deluxe''\<rparr>"
  note run = ex_checkout_at_threshold
  have omitted: "gift_wrapping ?req = None"
    by (simp add: ex_request_def)
  have unknown: "gift_wrapping ?bad = Some ''deluxe'' \<and> ''deluxe'' \<notin> set VALID_WRAPPING"
    by (simp add: VALID_WRAPPING_def)
  from checkout_gift_wrapping[of ?req accept_all 7 ex_db] omitted have
    a: "snd (checkout accept_all 7 ?req ex_db) \<noteq> Inl InvalidGiftWrapping"
    and b: "\<forall>s' resp. checkout accept_all 7 ?req ex_db = (s', Inr resp) \<longrightarrow>
         wrapping_fee (summary resp) = 0 \<and>
         (\<exists>row. orders s' = orders ex_db @ [row] \<and> o_gift_wrapping row = ''none'')"
    by blast+
  from b run have c: "\<exists>s' resp. checkout accept_all 7 ?req ex_db = (s', Inr resp) \<and>
       wrapping_fee (summary resp) = 0 \<and>
       (\<exists>row. orders s' = orders ex_db @ [row] \<and> o_gift_wrapping row = ''none'')"
    by blast
  from checkout_gift_wrapping[of ?bad accept_all 7 ex_db] unknown have
    d: "\<exists>e. checkout accept_all 7 ?bad ex_db = (ex_db, Inl e) \<and> http_status e = 400"
    by blast
  from omitted a c unknown d show ?thesis by blast
qed

text \<open>
  C6 as stated fails: a request that differs from a successful one only in the wrapping
  \<open>deluxe\<close>, which is not one of the options, is rejected with status 400 and nothing
  is written.
\<close>

theorem checkout_gift_wrapping_counterexample:
  "checkout accept_all 7
     ((ex_request [\<lparr>product_id = 3, quantity = JNum ''1''\<rparr>])\<lparr>gift_wrapping := Some ''deluxe''\<rparr>)
     ex_db = (ex_db, Inl InvalidGiftWrapping)
   \<and> http_status InvalidGiftWrapping = 400
   \<and> ''deluxe'' \<notin> set VALID_WRAPPING"
  by code_simp







section \<open>Claims about the webhook\<close>

lemma length_mark_paid [simp]: "length (mark_paid charge intent now rows) = length rows"
  by (simp add: mark_paid_def)

lemma nth_mark_paid:
  "i < length rows \<Longrightarrow>
   mark_paid charge intent now rows ! i
     = (if stripe_payment_intent (rows ! i) = Some intent
        then (rows ! i)\<lparr>status := Paid, stripe_charge_id := Some charge, updated_at := now\<rparr>
        else rows ! i)"
  by (simp add: mark_paid_def)



text \<open>What the handler does with an event whose signature verifies.\<close>

lemma webhook_verified:
  assumes "constructEvent body (nullish header []) secret = Inr event"
  shows "webhook constructEvent secret body header now rows
     = (if ev_type event = ''payment_intent.succeeded''
        then mark_paid (nullish (latest_charge (data_object event)) [])
               (pi_id (data_object event)) now rows
        else rows, Received)"
  using assms by (simp add: webhook_def Let_def)


lemma ex_verify_good:
  "ex_constructEvent body (nullish (Some ''v1=whsec'') []) ''whsec'' = Inr (ex_event body)"
  by (simp add: ex_constructEvent_def nullish_def)



text \<open>
  C10. For a verified \<open>payment_intent.succeeded\<close> event and any row whose stored intent
  id is the event's, whatever the row's status and charge reference were, the row after
  the call has status \<open>paid\<close>, the event's charge reference (the empty text when the event
  has none) and the current time; its id and intent id are as before, and the table has
  the same number of rows.
\<close>

theorem webhook_marks_paid_unconditionally:
  assumes "constructEvent body (nullish header []) secret = Inr event"
    and "ev_type event = ''payment_intent.succeeded''"
    and "i < length rows"
    and "stripe_payment_intent (rows ! i) = Some (pi_id (data_object event))"
  shows "length (fst (webhook constructEvent secret body header now rows)) = length rows
     \<and> fst (webhook constructEvent secret body header now rows) ! i
         = (rows ! i)\<lparr>status := Paid,
                      stripe_charge_id := Some (nullish (latest_charge (data_object event)) []),
                      updated_at := now\<rparr>
     \<and> status (fst (webhook constructEvent secret body header now rows) ! i) = Paid"
  using assms(2-4)
  by (simp add: webhook_verified[of constructEvent body header secret event, OF assms(1)]
        nth_mark_paid)

theorem webhook_marks_paid_unconditionally_witness:
  "(status (ex_orders ! 1) = Cancelled
    \<and> fst (webhook ex_constructEvent ''whsec'' ''succeeded pi_2'' (Some ''v1=whsec'') 10 ex_orders) ! 1
        = \<lparr>so_id = 2, status = Paid, stripe_payment_intent = Some ''pi_2'',
           stripe_charge_id = Some ''ch_2'', updated_at = 10\<rparr>)
   \<and> (status (ex_orders ! 2) = Delivered \<and> stripe_charge_id (ex_orders ! 2) = Some ''ch_old''
    \<and> fst (webhook ex_constructEvent ''whsec'' ''succeeded pi_3'' (Some ''v1=whsec'') 10 ex_orders) ! 2
        = \<lparr>so_id = 3, status = Paid, stripe_payment_intent = Some ''pi_3'',
           stripe_charge_id = Some [], updated_at = 10\<rparr>)"
proof -
  have e2: "ev_type (ex_event ''succeeded pi_2'') = ''payment_intent.succeeded''"
    and e3: "ev_type (ex_event ''succeeded pi_3'') = ''payment_intent.succeeded''"
    by (simp_all add: ex_event_def)
  have l: "1 < length ex_orders" "2 < length ex_orders"
    by (simp_all add: ex_orders_def)
  have m2: "stripe_payment_intent (ex_orders ! 1) = Some (pi_id (data_object (ex_event ''succeeded pi_2'')))"
    and m3: "stripe_payment_intent (ex_orders ! 2) = Some (pi_id (data_object (ex_event ''succeeded pi_3'')))"
    by (simp_all add: ex_orders_def ex_event_def)
  from webhook_marks_paid_unconditionally[of ex_constructEvent "''succeeded pi_2''"
         "Some ''v1=whsec''" "''whsec''" "ex_event ''succeeded pi_2''" 1 ex_orders 10,
         OF ex_verify_good e2 l(1) m2]
       webhook_marks_paid_unconditionally[of ex_constructEvent "''succeeded pi_3''"
         "Some ''v1=whsec''" "''whsec''" "ex_event ''succeeded pi_3''" 2 ex_orders 10,
         OF ex_verify_good e3 l(2) m3]
  show ?thesis
    by (simp add: ex_orders_def ex_event_def nullish_def)
qed



end
